theory Spec2Isabelle
  imports Complex_Main
begin

section \<open>The EMS mock simulation (backend/ems\_api/services.py)\<close>

text \<open>
  The service keeps one process-wide simulation state and derives every answer from it.
  Python floats are idealised as real numbers: \<open>math.sin\<close> is \<^const>\<open>sin\<close>,
  \<open>math.pi\<close> is \<^const>\<open>pi\<close>, and \<open>round(x, n)\<close> rounds the exact
  value (half to even). Every reading of the wall clock (\<open>time.time()\<close>,
  \<open>datetime.now()\<close>) is an argument of the function that reads it.
\<close>

subsection \<open>Rounding and number formatting\<close>

text \<open>Python's \<open>round(x)\<close>: the nearest integer, a tie going to the even one.\<close>

definition py_round :: "real \<Rightarrow> int" where
  "py_round x =
     (let f = \<lfloor>x\<rfloor>; r = x - of_int f
      in if r < 1 / 2 then f
         else if 1 / 2 < r then f + 1
         else if even f then f else f + 1)"

text \<open>Python's \<open>round(x, n)\<close> for a non-negative number of digits \<open>n\<close>.\<close>

definition py_round_nd :: "real \<Rightarrow> nat \<Rightarrow> real" where
  "py_round_nd x n = of_int (py_round (x * 10 ^ n)) / 10 ^ n"

text \<open>Decimal rendering of an integer, as an f-string renders an \<open>int\<close>.\<close>

fun str_nat :: "nat \<Rightarrow> string" where
  "str_nat n =
     (if n < 10 then [''0123456789'' ! n]
      else str_nat (n div 10) @ [''0123456789'' ! (n mod 10)])"

declare str_nat.simps [simp del]

definition str_int :: "int \<Rightarrow> string" where
  "str_int i = (if i < 0 then ''-'' @ str_nat (nat (- i)) else str_nat (nat i))"

subsection \<open>Data model\<close>

text \<open>The four keys of the \<open>power\<close> and \<open>charts\<close> dictionaries.\<close>

datatype pkey = Grid | Solar | Battery | Load

record kpis =
  batterySOC :: real
  energyToday :: real
  peakPowerToday :: real
  costSavings :: real
  carbonAvoided :: real
  activeSites :: nat

record chart_point =
  timestamp :: string
  val :: real

text \<open>
  The state dictionary together with the class attribute \<open>_last_update\<close>. An
  uninitialised class (\<open>_state is None\<close>) is \<^const>\<open>None\<close> of the option type.
\<close>

record sim =
  power :: "pkey \<Rightarrow> real"
  kpis :: kpis
  charts :: "pkey \<Rightarrow> chart_point list"
  lastUpdated :: real
  last_update :: real

text \<open>
  What the code reads of \<open>datetime.now()\<close>: the hour, the minute and the ISO string.
\<close>

record datetime =
  dt_hour :: nat
  dt_minute :: nat
  dt_isoformat :: string

subsection \<open>EMSSimulation\<close>

definition initialize_state :: "real \<Rightarrow> sim" where
  "initialize_state now =
     \<lparr>power = (\<lambda>k. 0),
      kpis = \<lparr>batterySOC = 75, energyToday = 0, peakPowerToday = 0,
              costSavings = 0, carbonAvoided = 0, activeSites = 6\<rparr>,
      charts = (\<lambda>k. []),
      lastUpdated = now,
      last_update = now\<rparr>"

text \<open>\<open>hour = now.hour + now.minute / 60\<close>\<close>

definition hour_of :: "datetime \<Rightarrow> real" where
  "hour_of now = real (dt_hour now) + real (dt_minute now) / 60"

definition solar_factor :: "real \<Rightarrow> real" where
  "solar_factor hour =
     (if 6 \<le> hour \<and> hour \<le> 18 then sin ((hour - 6) / 12 * pi) else 0)"

definition solar_power :: "real \<Rightarrow> datetime \<Rightarrow> real" where
  "solar_power current_time now =
     50 * solar_factor (hour_of now) * (0.9 + sin (current_time / 10000) * 0.1)"

definition time_factor :: "real \<Rightarrow> real" where
  "time_factor hour = 0.7 + 0.3 * sin ((hour - 6) / 12 * pi)"

definition load_power :: "real \<Rightarrow> datetime \<Rightarrow> real" where
  "load_power current_time now =
     80 * time_factor (hour_of now) * (0.95 + sin (current_time / 8000) * 0.05)"

definition net_power :: "real \<Rightarrow> datetime \<Rightarrow> real" where
  "net_power current_time now = solar_power current_time now - load_power current_time now"

text \<open>
  The battery controller: the battery power and the state of charge after the update,
  before it is clamped.
\<close>

definition battery_control :: "real \<Rightarrow> real \<Rightarrow> real \<Rightarrow> real \<times> real" where
  "battery_control net soc delta_ms =
     (if net > 5 \<and> soc < 95 then
        (let battery_power = min (net * 0.8) 25
         in (battery_power, soc + (battery_power * delta_ms / 1000 / 3600) / 100 * 2))
      else if net < - 5 \<and> soc > 15 then
        (let battery_power = max (net * 0.8) (- 25)
         in (battery_power, soc + (battery_power * delta_ms / 1000 / 3600) / 100 * 2))
      else (0, soc))"

definition battery_power :: "real \<Rightarrow> datetime \<Rightarrow> real \<Rightarrow> sim \<Rightarrow> real" where
  "battery_power current_time now delta_ms st =
     fst (battery_control (net_power current_time now) (batterySOC (kpis st)) delta_ms)"

definition soc_updated :: "real \<Rightarrow> datetime \<Rightarrow> real \<Rightarrow> sim \<Rightarrow> real" where
  "soc_updated current_time now delta_ms st =
     snd (battery_control (net_power current_time now) (batterySOC (kpis st)) delta_ms)"

text \<open>\<open>soc = max(10, min(100, soc))\<close>\<close>

definition soc_clamped :: "real \<Rightarrow> datetime \<Rightarrow> real \<Rightarrow> sim \<Rightarrow> real" where
  "soc_clamped current_time now delta_ms st =
     max 10 (min 100 (soc_updated current_time now delta_ms st))"

definition grid_power :: "real \<Rightarrow> datetime \<Rightarrow> real \<Rightarrow> sim \<Rightarrow> real" where
  "grid_power current_time now delta_ms st =
     load_power current_time now - solar_power current_time now
       - battery_power current_time now delta_ms st"

text \<open>The \<open>power\<close> dictionary stored by an advance: the four values rounded.\<close>

definition new_power :: "real \<Rightarrow> datetime \<Rightarrow> real \<Rightarrow> sim \<Rightarrow> pkey \<Rightarrow> real" where
  "new_power current_time now delta_ms st k =
     (case k of
        Grid \<Rightarrow> py_round_nd (grid_power current_time now delta_ms st) 2
      | Solar \<Rightarrow> py_round_nd (solar_power current_time now) 2
      | Battery \<Rightarrow> py_round_nd (battery_power current_time now delta_ms st) 2
      | Load \<Rightarrow> py_round_nd (load_power current_time now) 2)"

text \<open>
  One turn of the chart loop: append the point, then drop index 0 once the list is
  longer than 100.
\<close>

definition chart_append :: "chart_point \<Rightarrow> chart_point list \<Rightarrow> chart_point list" where
  "chart_append p xs = (let ys = xs @ [p] in if length ys > 100 then tl ys else ys)"

definition chart_step ::
  "string \<Rightarrow> (pkey \<Rightarrow> real) \<Rightarrow> pkey \<Rightarrow> (pkey \<Rightarrow> chart_point list) \<Rightarrow> pkey \<Rightarrow> chart_point list"
where
  "chart_step ts pw key ch =
     ch (key := chart_append \<lparr>timestamp = ts, val = pw key\<rparr> (ch key))"

definition advance_simulation :: "real \<Rightarrow> datetime \<Rightarrow> real \<Rightarrow> sim \<Rightarrow> sim" where
  "advance_simulation current_time now delta_ms st =
     (let pw = new_power current_time now delta_ms st;
          delta_hours = delta_ms / 1000 / 3600;
          k = kpis st;
          k' = k\<lparr>batterySOC := py_round_nd (soc_clamped current_time now delta_ms st) 2,
                 energyToday := energyToday k + load_power current_time now * delta_hours,
                 peakPowerToday := max (peakPowerToday k) (load_power current_time now),
                 costSavings :=
                   costSavings k + solar_power current_time now * delta_hours * 0.15,
                 carbonAvoided :=
                   carbonAvoided k + solar_power current_time now * delta_hours * 0.82\<rparr>;
          ch = fold (chart_step (dt_isoformat now) pw) [Grid, Solar, Load, Battery] (charts st)
      in st\<lparr>power := pw, kpis := k', charts := ch,
             lastUpdated := current_time, last_update := current_time\<rparr>)"

text \<open>
  The clock readings of one \<open>get_state()\<close> call: its own \<open>time.time()\<close>, the one
  of \<open>_initialize_state\<close> and the two of \<open>_advance_simulation\<close>, each used only
  when that function runs.
\<close>

record clock =
  time_ms :: real
  init_ms :: real
  adv_ms :: real
  adv_now :: datetime

definition get_state :: "clock \<Rightarrow> sim option \<Rightarrow> sim" where
  "get_state clk cls =
     (let current_time = time_ms clk;
          st = (case cls of None \<Rightarrow> initialize_state (init_ms clk) | Some s \<Rightarrow> s);
          delta = current_time - last_update st
      in if delta > 100 then advance_simulation (adv_ms clk) (adv_now clk) delta st
         else st)"

subsection \<open>Derivation functions\<close>

text \<open>
  The values of the returned dictionaries; a returned dictionary is an association list
  in the order the code writes its keys.
\<close>

datatype jval = JNum real | JStr string | JBool bool

type_synonym jdict = "(string \<times> jval) list"

record charts_response =
  cr_grid :: "chart_point list"
  cr_solar :: "chart_point list"
  cr_load :: "chart_point list"
  cr_battery :: "chart_point list"
  cr_timestamp :: string

text \<open>
  \<open>fromtimestamp\<close> stands for \<open>datetime.fromtimestamp(s).isoformat()\<close>, which
  depends on the time zone of the host.
\<close>

definition get_charts :: "clock \<Rightarrow> (real \<Rightarrow> string) \<Rightarrow> sim option \<Rightarrow> charts_response" where
  "get_charts clk fromtimestamp cls =
     (let state = get_state clk cls
      in \<lparr>cr_grid = charts state Grid,
          cr_solar = charts state Solar,
          cr_load = charts state Load,
          cr_battery = charts state Battery,
          cr_timestamp = fromtimestamp (lastUpdated state / 1000)\<rparr>)"

definition battery_critical :: "datetime \<Rightarrow> real \<Rightarrow> jdict" where
  "battery_critical now soc =
     [(''id'', JStr ''alert-battery-critical''),
      (''timestamp'', JStr (dt_isoformat now)),
      (''severity'', JStr ''critical''),
      (''category'', JStr ''battery''),
      (''title'', JStr ''Critical Battery Level''),
      (''message'', JStr (''Battery SOC at '' @ str_int (py_round soc)
                            @ ''%. Immediate charging required.'')),
      (''acknowledged'', JBool False)]"

definition battery_warning :: "datetime \<Rightarrow> real \<Rightarrow> jdict" where
  "battery_warning now soc =
     [(''id'', JStr ''alert-battery-warning''),
      (''timestamp'', JStr (dt_isoformat now)),
      (''severity'', JStr ''warning''),
      (''category'', JStr ''battery''),
      (''title'', JStr ''Low Battery Level''),
      (''message'', JStr (''Battery SOC at '' @ str_int (py_round soc)
                            @ ''%. Consider charging.'')),
      (''acknowledged'', JBool False)]"

definition grid_high :: "datetime \<Rightarrow> real \<Rightarrow> jdict" where
  "grid_high now grid_pw =
     [(''id'', JStr ''alert-grid-high''),
      (''timestamp'', JStr (dt_isoformat now)),
      (''severity'', JStr ''warning''),
      (''category'', JStr ''grid''),
      (''title'', JStr ''High Grid Power''),
      (''message'', JStr (''Grid power at '' @ str_int (py_round \<bar>grid_pw\<bar>) @ '' kW.'')),
      (''acknowledged'', JBool False)]"

text \<open>
  \<open>get_alerts\<close> reads the state through \<open>get_state()\<close> and then the clock once
  more (\<open>now\<close>) for the timestamps.
\<close>

definition get_alerts :: "clock \<Rightarrow> datetime \<Rightarrow> sim option \<Rightarrow> jdict list" where
  "get_alerts clk now cls =
     (let state = get_state clk cls;
          soc = batterySOC (kpis state);
          alerts = (if soc < 20 then [battery_critical now soc]
                    else if soc < 30 then [battery_warning now soc]
                    else []);
          grid_pw = power state Grid
      in if \<bar>grid_pw\<bar> > 50 then alerts @ [grid_high now grid_pw] else alerts)"

record site =
  site_id :: string
  site_name :: string
  capacity :: nat

definition sites :: "site list" where
  "sites =
     [\<lparr>site_id = ''site-001'', site_name = ''Hyderabad Data Center'', capacity = 1200\<rparr>,
      \<lparr>site_id = ''site-002'', site_name = ''Mumbai Manufacturing'', capacity = 800\<rparr>,
      \<lparr>site_id = ''site-003'', site_name = ''Pune Office Complex'', capacity = 500\<rparr>,
      \<lparr>site_id = ''site-004'', site_name = ''Bangalore Tech Park'', capacity = 1500\<rparr>,
      \<lparr>site_id = ''site-005'', site_name = ''Chennai Industrial'', capacity = 900\<rparr>,
      \<lparr>site_id = ''site-006'', site_name = ''Delhi Campus'', capacity = 600\<rparr>]"

text \<open>The per-site state of charge: the global one shifted by the index, then clamped.\<close>

definition site_soc :: "sim \<Rightarrow> nat \<Rightarrow> real" where
  "site_soc state idx = max 10 (min 100 (batterySOC (kpis state) + (real idx - 3) * 2))"

text \<open>The body of the loop of \<open>get_sites\<close>: the entry appended for one site.\<close>

definition site_entry :: "sim \<Rightarrow> datetime \<Rightarrow> nat \<Rightarrow> site \<Rightarrow> jdict" where
  "site_entry state now idx s =
     (let variance = 0.8 + real idx * 0.05;
          current_power = power state Load * variance / real (length sites);
          soc = site_soc state idx
      in [(''siteId'', JStr (site_id s)),
          (''name'', JStr (site_name s)),
          (''currentPower'', JNum (py_round_nd current_power 2)),
          (''soc'', JNum (py_round_nd soc 1)),
          (''efficiency'', JNum (py_round_nd (85 + real idx * 2) 1)),
          (''status'', JStr (if soc > 20 then ''online'' else ''warning'')),
          (''timestamp'', JStr (dt_isoformat now))])"

definition get_sites :: "clock \<Rightarrow> datetime \<Rightarrow> sim option \<Rightarrow> jdict list" where
  "get_sites clk now cls =
     (let state = get_state clk cls
      in map (\<lambda>(idx, s). site_entry state now idx s) (enumerate 0 sites))"

subsection \<open>Runs of the simulation\<close>

text \<open>
  A sequence of successive advances, each with its clock readings and its elapsed time,
  and the chart points that such a sequence appends under one key.
\<close>

fun run :: "(real \<times> datetime \<times> real) list \<Rightarrow> sim \<Rightarrow> sim" where
  "run [] st = st"
| "run ((current_time, now, delta_ms) # steps) st =
     run steps (advance_simulation current_time now delta_ms st)"

fun points :: "pkey \<Rightarrow> (real \<times> datetime \<times> real) list \<Rightarrow> sim \<Rightarrow> chart_point list" where
  "points k [] st = []"
| "points k ((current_time, now, delta_ms) # steps) st =
     \<lparr>timestamp = dt_isoformat now, val = new_power current_time now delta_ms st k\<rparr>
       # points k steps (advance_simulation current_time now delta_ms st)"

subsection \<open>Predicates used in the properties\<close>

text \<open>The four chart buffers of a state have the same length.\<close>

definition charts_aligned :: "sim \<Rightarrow> bool" where
  "charts_aligned st =
     (length (charts st Solar) = length (charts st Grid) \<and>
      length (charts st Load) = length (charts st Grid) \<and>
      length (charts st Battery) = length (charts st Grid))"

text \<open>An alert of a given category, and of a given category and severity.\<close>

definition in_category :: "string \<Rightarrow> jdict \<Rightarrow> bool" where
  "in_category c a = (map_of a ''category'' = Some (JStr c))"

definition is_alert :: "string \<Rightarrow> string \<Rightarrow> jdict \<Rightarrow> bool" where
  "is_alert c sev a = (in_category c a \<and> map_of a ''severity'' = Some (JStr sev))"

section \<open>Properties\<close>

subsection \<open>Rounding\<close>

lemma py_round_ge: "of_int k \<le> x \<Longrightarrow> k \<le> py_round x"
proof -
  assume "of_int k \<le> x"
  then have "k \<le> \<lfloor>x\<rfloor>" by (simp add: le_floor_iff)
  then show ?thesis by (simp add: py_round_def Let_def)
qed

lemma py_round_le: "x \<le> of_int k \<Longrightarrow> py_round x \<le> k"
proof (cases "x = of_int k")
  case True
  then show ?thesis by (simp add: py_round_def Let_def)
next
  case False
  assume "x \<le> of_int k"
  with False have "x < of_int k" by simp
  then have "\<lfloor>x\<rfloor> < k" by (simp add: floor_less_iff)
  then show ?thesis by (simp add: py_round_def Let_def)
qed

lemma py_round_nd2_bounds:
  assumes "10 \<le> x" "x \<le> 100"
  shows "10 \<le> py_round_nd x 2 \<and> py_round_nd x 2 \<le> 100"
proof -
  have "of_int 1000 \<le> x * 10 ^ 2" using assms by simp
  then have a: "1000 \<le> py_round (x * 10 ^ 2)" by (rule py_round_ge)
  have "x * 10 ^ 2 \<le> of_int 10000" using assms by simp
  then have b: "py_round (x * 10 ^ 2) \<le> 10000" by (rule py_round_le)
  from a have "(1000::real) \<le> of_int (py_round (x * 10 ^ 2))" by linarith
  moreover from b have "of_int (py_round (x * 10 ^ 2)) \<le> (10000::real)" by linarith
  ultimately show ?thesis by (simp add: py_round_nd_def field_simps)
qed

subsection \<open>State of charge\<close>

lemma advance_batterySOC:
  "batterySOC (kpis (advance_simulation ct now d st)) = py_round_nd (soc_clamped ct now d st) 2"
  by (simp add: advance_simulation_def Let_def)

text \<open>
  C1. After an advance the stored \<open>batterySOC\<close> lies in [10, 100], whatever the elapsed
  time, the clock and the prior state: the clamp comes after the update, and rounding to
  two decimals cannot leave the interval.
\<close>

theorem advance_soc_in_range:
  "10 \<le> batterySOC (kpis (advance_simulation ct now d st)) \<and>
   batterySOC (kpis (advance_simulation ct now d st)) \<le> 100"
  unfolding advance_batterySOC
  by (rule py_round_nd2_bounds) (simp_all add: soc_clamped_def)

subsection \<open>Accumulators\<close>

lemma solar_factor_nonneg: "0 \<le> solar_factor h"
proof (cases "6 \<le> h \<and> h \<le> 18")
  case True
  then have "0 \<le> (h - 6) / 12 * pi" by simp
  moreover from True have "(h - 6) / 12 \<le> 1" by simp
  then have "(h - 6) / 12 * pi \<le> 1 * pi" by (rule mult_right_mono) simp
  ultimately have "0 \<le> sin ((h - 6) / 12 * pi)" by (simp add: sin_ge_zero)
  with True show ?thesis by (simp add: solar_factor_def)
next
  case False
  then show ?thesis by (auto simp: solar_factor_def)
qed

lemma solar_power_nonneg: "0 \<le> solar_power ct now"
proof -
  have "0 \<le> 0.9 + sin (ct / 10000) * 0.1"
    using sin_ge_minus_one [of "ct / 10000"] by linarith
  then show ?thesis
    unfolding solar_power_def using solar_factor_nonneg [of "hour_of now"] by simp
qed

lemma time_factor_pos: "0 < time_factor h"
  unfolding time_factor_def using sin_ge_minus_one [of "(h - 6) / 12 * pi"] by linarith

lemma load_power_pos: "0 < load_power ct now"
proof -
  have "0 < 19 / 20 + sin (ct / 8000) / 20"
    using sin_ge_minus_one [of "ct / 8000"] by linarith
  then have "0 < 0.95 + sin (ct / 8000) * 0.05" by simp
  then show ?thesis
    unfolding load_power_def using time_factor_pos [of "hour_of now"] by simp
qed

lemma advance_kpis_mono:
  assumes "0 \<le> d"
  shows "energyToday (kpis st) \<le> energyToday (kpis (advance_simulation ct now d st))"
    and "peakPowerToday (kpis st) \<le> peakPowerToday (kpis (advance_simulation ct now d st))"
    and "costSavings (kpis st) \<le> costSavings (kpis (advance_simulation ct now d st))"
    and "carbonAvoided (kpis st) \<le> carbonAvoided (kpis (advance_simulation ct now d st))"
proof -
  have l: "0 \<le> d * load_power ct now" "0 \<le> load_power ct now * d"
    using assms load_power_pos [of ct now] by simp_all
  have s: "0 \<le> d * solar_power ct now" "0 \<le> solar_power ct now * d"
    using assms solar_power_nonneg [of ct now] by simp_all
  show "energyToday (kpis st) \<le> energyToday (kpis (advance_simulation ct now d st))"
    using l by (simp add: advance_simulation_def Let_def)
  show "peakPowerToday (kpis st) \<le> peakPowerToday (kpis (advance_simulation ct now d st))"
    by (simp add: advance_simulation_def Let_def)
  show "costSavings (kpis st) \<le> costSavings (kpis (advance_simulation ct now d st))"
    using s by (simp add: advance_simulation_def Let_def)
  show "carbonAvoided (kpis st) \<le> carbonAvoided (kpis (advance_simulation ct now d st))"
    using s by (simp add: advance_simulation_def Let_def)
qed

text \<open>
  C4. Over any sequence of advances whose elapsed times are all non-negative, none of
  \<open>energyToday\<close>, \<open>peakPowerToday\<close>, \<open>costSavings\<close> and \<open>carbonAvoided\<close>
  ever decreases: each ends at least as large as it started, from any state.
\<close>

theorem accumulators_non_decreasing:
  "list_all (\<lambda>(current_time, now, delta_ms). 0 \<le> delta_ms) steps \<Longrightarrow>
     energyToday (kpis st) \<le> energyToday (kpis (run steps st)) \<and>
     peakPowerToday (kpis st) \<le> peakPowerToday (kpis (run steps st)) \<and>
     costSavings (kpis st) \<le> costSavings (kpis (run steps st)) \<and>
     carbonAvoided (kpis st) \<le> carbonAvoided (kpis (run steps st))"
proof (induction steps arbitrary: st)
  case Nil
  show ?case by simp
next
  case (Cons step steps)
  obtain ct now d where step: "step = (ct, now, d)" by (cases step) auto
  from Cons.prems step have d: "0 \<le> d"
    and rest: "list_all (\<lambda>(current_time, now, delta_ms). 0 \<le> delta_ms) steps"
    by simp_all
  note one = advance_kpis_mono [OF d, of st ct now]
  note more = Cons.IH [OF rest, of "advance_simulation ct now d st"]
  from one more show ?case unfolding step by simp
qed

theorem accumulators_non_decreasing_witness:
  "list_all (\<lambda>(current_time, now, delta_ms). 0 \<le> delta_ms)
      [(0, \<lparr>dt_hour = 6, dt_minute = 0, dt_isoformat = ''2025-01-01T06:00:00''\<rparr>, 3600000::real)] \<and>
   energyToday (kpis (initialize_state 0)) = 0 \<and>
   energyToday (kpis (run [(0, \<lparr>dt_hour = 6, dt_minute = 0,
       dt_isoformat = ''2025-01-01T06:00:00''\<rparr>, 3600000)] (initialize_state 0))) = 53.2 \<and>
   energyToday (kpis (initialize_state 0))
     \<le> energyToday (kpis (run [(0, \<lparr>dt_hour = 6, dt_minute = 0,
       dt_isoformat = ''2025-01-01T06:00:00''\<rparr>, 3600000)] (initialize_state 0)))"
proof -
  let ?steps = "[(0, \<lparr>dt_hour = 6, dt_minute = 0, dt_isoformat = ''2025-01-01T06:00:00''\<rparr>,
      3600000::real)]"
  have h: "list_all (\<lambda>(current_time, now, delta_ms). 0 \<le> delta_ms) ?steps" by simp
  have e: "energyToday (kpis (run ?steps (initialize_state 0))) = 53.2"
    by (simp add: advance_simulation_def Let_def initialize_state_def load_power_def
        time_factor_def hour_of_def)
  have z: "energyToday (kpis (initialize_state 0)) = 0" by (simp add: initialize_state_def)
  from accumulators_non_decreasing [OF h, of "initialize_state 0"] h e z
  show ?thesis by blast
qed

subsection \<open>Chart buffers\<close>

lemma fold_chart_step:
  "fold (chart_step ts pw) [Grid, Solar, Load, Battery] ch =
     (\<lambda>k. chart_append \<lparr>timestamp = ts, val = pw k\<rparr> (ch k))"
proof (rule ext)
  fix k
  show "fold (chart_step ts pw) [Grid, Solar, Load, Battery] ch k =
      chart_append \<lparr>timestamp = ts, val = pw k\<rparr> (ch k)"
    by (cases k) (simp_all add: chart_step_def)
qed

lemma advance_charts:
  "charts (advance_simulation ct now d st) k =
     chart_append \<lparr>timestamp = dt_isoformat now, val = new_power ct now d st k\<rparr> (charts st k)"
  unfolding advance_simulation_def Let_def fold_chart_step by simp

lemma chart_append_drop:
  "length xs \<le> 100 \<Longrightarrow> chart_append p xs = drop (length xs + 1 - 100) (xs @ [p])"
proof (cases "length xs = 100")
  case True
  then have "length xs + 1 - 100 = Suc 0" and "xs \<noteq> []" by auto
  with True show ?thesis by (simp add: chart_append_def Let_def drop_Suc)
next
  case False
  assume "length xs \<le> 100"
  with False have "length xs + 1 - 100 = 0" by simp
  with False \<open>length xs \<le> 100\<close> show ?thesis by (simp add: chart_append_def Let_def)
qed

lemma chart_append_length:
  "length (chart_append p xs) = (if length xs + 1 > 100 then length xs else length xs + 1)"
  by (simp add: chart_append_def Let_def)

lemma chart_append_evict:
  "length xs \<le> 100 \<Longrightarrow>
     chart_append p xs = (if length xs = 100 then tl xs @ [p] else xs @ [p])"
  by (cases xs) (auto simp: chart_append_def Let_def)

lemma length_points: "length (points k steps st) = length steps"
  by (induction steps arbitrary: st) auto

lemma run_charts:
  "length (charts st k) \<le> 100 \<Longrightarrow>
     charts (run steps st) k =
       drop (length (charts st k) + length steps - 100) (charts st k @ points k steps st)"
proof (induction steps arbitrary: st)
  case Nil
  then show ?case by simp
next
  case (Cons step steps)
  obtain ct now d where step: "step = (ct, now, d)" by (cases step) auto
  let ?p = "\<lparr>timestamp = dt_isoformat now, val = new_power ct now d st k\<rparr>"
  let ?st = "advance_simulation ct now d st"
  let ?n = "length (charts st k)"
  have c: "charts ?st k = drop (?n + 1 - 100) (charts st k @ [?p])"
    using Cons.prems by (simp add: advance_charts chart_append_drop)
  have len: "length (charts ?st k) = min (?n + 1) 100"
    using Cons.prems by (simp add: advance_charts chart_append_length)
  then have le: "length (charts ?st k) \<le> 100" by simp
  have "charts (run (step # steps) st) k = charts (run steps ?st) k"
    by (simp add: step)
  also have "\<dots> = drop (length (charts ?st k) + length steps - 100)
      (charts ?st k @ points k steps ?st)"
    by (rule Cons.IH [OF le])
  also have "\<dots> = drop (min (?n + 1) 100 + length steps - 100)
      (drop (?n + 1 - 100) (charts st k @ [?p]) @ points k steps ?st)"
    by (simp only: len) (simp only: c)
  also have "\<dots> = drop (?n + length (step # steps) - 100)
      (charts st k @ points k (step # steps) st)"
    using Cons.prems by (auto simp: step min_def add.commute)
  finally show ?case .
qed

lemma run_from_init_bounded: "length (charts (run steps (initialize_state t)) k) \<le> 100"
proof -
  have "length (charts (initialize_state t) k) \<le> 100" by (simp add: initialize_state_def)
  from run_charts [OF this, of steps] show ?thesis by (simp add: length_points)
qed

text \<open>
  C5. From a state whose buffer under a key holds at most 100 points, after any sequence
  of advances the buffer still holds at most 100 points, and it is exactly the last 100 of
  the old points followed by the appended ones, in their order: the oldest go first. One
  advance on a full buffer drops index 0 and appends the new point at the end.
\<close>

theorem chart_buffers_bounded_fifo:
  "length (charts st k) \<le> 100 \<Longrightarrow>
     length (charts (run steps st) k) \<le> 100 \<and>
     charts (run steps st) k =
       drop (length (charts st k) + length steps - 100) (charts st k @ points k steps st) \<and>
     charts (advance_simulation ct now d st) k =
       (if length (charts st k) = 100
        then tl (charts st k) @ [\<lparr>timestamp = dt_isoformat now, val = new_power ct now d st k\<rparr>]
        else charts st k @ [\<lparr>timestamp = dt_isoformat now, val = new_power ct now d st k\<rparr>])"
proof -
  assume le: "length (charts st k) \<le> 100"
  have eq: "charts (run steps st) k =
       drop (length (charts st k) + length steps - 100) (charts st k @ points k steps st)"
    by (rule run_charts [OF le])
  have "length (charts (run steps st) k) \<le> 100"
    unfolding eq by (simp add: length_points)
  moreover note eq
  moreover have "charts (advance_simulation ct now d st) k =
       (if length (charts st k) = 100
        then tl (charts st k) @ [\<lparr>timestamp = dt_isoformat now, val = new_power ct now d st k\<rparr>]
        else charts st k @ [\<lparr>timestamp = dt_isoformat now, val = new_power ct now d st k\<rparr>])"
    unfolding advance_charts by (rule chart_append_evict [OF le])
  ultimately show ?thesis by blast
qed

theorem chart_buffers_bounded_fifo_witness:
  "length (charts ((initialize_state 0)
       \<lparr>charts := \<lambda>k. map (\<lambda>i. \<lparr>timestamp = ''old'', val = real i\<rparr>) [0..<100]\<rparr>) Grid) \<le> 100 \<and>
   length (charts ((initialize_state 0)
       \<lparr>charts := \<lambda>k. map (\<lambda>i. \<lparr>timestamp = ''old'', val = real i\<rparr>) [0..<100]\<rparr>) Grid) = 100 \<and>
   charts (run [(0, \<lparr>dt_hour = 6, dt_minute = 0, dt_isoformat = ''2025-01-01T06:00:00''\<rparr>, 1000)]
            ((initialize_state 0)
       \<lparr>charts := \<lambda>k. map (\<lambda>i. \<lparr>timestamp = ''old'', val = real i\<rparr>) [0..<100]\<rparr>)) Grid =
     map (\<lambda>i. \<lparr>timestamp = ''old'', val = real i\<rparr>) [1..<100]
       @ [\<lparr>timestamp = ''2025-01-01T06:00:00'', val = 78.2\<rparr>] \<and>
   length (charts (run [(0, \<lparr>dt_hour = 6, dt_minute = 0, dt_isoformat = ''2025-01-01T06:00:00''\<rparr>, 1000)]
            ((initialize_state 0)
       \<lparr>charts := \<lambda>k. map (\<lambda>i. \<lparr>timestamp = ''old'', val = real i\<rparr>) [0..<100]\<rparr>)) Grid) = 100"
proof -
  let ?now = "\<lparr>dt_hour = 6, dt_minute = 0, dt_isoformat = ''2025-01-01T06:00:00''\<rparr>"
  let ?old = "map (\<lambda>i. \<lparr>timestamp = ''old'', val = real i\<rparr>) [0..<100]"
  let ?st = "(initialize_state 0)\<lparr>charts := \<lambda>k. ?old\<rparr>"
  have h: "length (charts ?st Grid) \<le> 100" by simp
  have n: "length (charts ?st Grid) = 100" by simp
  have l: "load_power 0 ?now = 53.2"
    by (simp add: load_power_def time_factor_def hour_of_def)
  have s: "solar_power 0 ?now = 0"
    by (simp add: solar_power_def solar_factor_def hour_of_def)
  have r: "py_round_nd (391 / 5) 2 = 391 / 5"
    by (simp add: py_round_nd_def py_round_def)
  have g: "new_power 0 ?now 1000 ?st Grid = 78.2"
    by (simp add: new_power_def grid_power_def battery_power_def battery_control_def
        net_power_def l s r initialize_state_def)
  have d: "drop (Suc 0) ?old = map (\<lambda>i. \<lparr>timestamp = ''old'', val = real i\<rparr>) [1..<100]"
    by (simp add: drop_map)
  have t: "tl ?old = map (\<lambda>i. \<lparr>timestamp = ''old'', val = real i\<rparr>) [1..<100]"
    by (simp add: map_tl [symmetric])
  have c: "charts (run [(0, ?now, 1000)] ?st) Grid =
      map (\<lambda>i. \<lparr>timestamp = ''old'', val = real i\<rparr>) [1..<100]
        @ [\<lparr>timestamp = ''2025-01-01T06:00:00'', val = 78.2\<rparr>]"
    using chart_buffers_bounded_fifo [OF h, of "[(0, ?now, 1000)]" 0 ?now 1000] d t
    by (simp add: g)
  have "length (charts (run [(0, ?now, 1000)] ?st) Grid) = 100"
    unfolding c by simp
  with h n c show ?thesis by blast
qed

lemma aligned_init: "charts_aligned (initialize_state t)"
  by (simp add: charts_aligned_def initialize_state_def)

lemma aligned_advance: "charts_aligned st \<Longrightarrow> charts_aligned (advance_simulation ct now d st)"
  by (simp add: charts_aligned_def advance_charts chart_append_length)

lemma aligned_run: "charts_aligned st \<Longrightarrow> charts_aligned (run steps st)"
proof (induction steps arbitrary: st)
  case Nil
  then show ?case by simp
next
  case (Cons step steps)
  obtain ct now d where step: "step = (ct, now, d)" by (cases step) auto
  from Cons.prems have "charts_aligned (advance_simulation ct now d st)"
    by (rule aligned_advance)
  then have "charts_aligned (run steps (advance_simulation ct now d st))"
    by (rule Cons.IH)
  then show ?case by (simp add: step)
qed

lemma aligned_get_state_Some: "charts_aligned st \<Longrightarrow> charts_aligned (get_state clk (Some st))"
  by (simp add: get_state_def Let_def aligned_advance)

lemma aligned_get_state_None: "charts_aligned (get_state clk None)"
  by (simp add: get_state_def Let_def aligned_advance aligned_init)

lemma get_charts_aligned:
  "charts_aligned (get_state clk cls) \<Longrightarrow>
     length (cr_solar (get_charts clk f cls)) = length (cr_grid (get_charts clk f cls)) \<and>
     length (cr_load (get_charts clk f cls)) = length (cr_grid (get_charts clk f cls)) \<and>
     length (cr_battery (get_charts clk f cls)) = length (cr_grid (get_charts clk f cls))"
  by (simp add: get_charts_def Let_def charts_aligned_def)

text \<open>
  C9. The four chart buffers have equal length initially, after every sequence of advances
  from the initial state and after one more advance, so \<open>get_charts\<close> returns four
  series of the same length, from such a state and from the uninitialised class alike.
\<close>

theorem chart_buffers_equal_length:
  "charts_aligned (initialize_state t) \<and>
   charts_aligned (run steps (initialize_state t)) \<and>
   charts_aligned (advance_simulation ct now d (run steps (initialize_state t))) \<and>
   length (cr_solar (get_charts clk f (Some (run steps (initialize_state t))))) =
     length (cr_grid (get_charts clk f (Some (run steps (initialize_state t))))) \<and>
   length (cr_load (get_charts clk f (Some (run steps (initialize_state t))))) =
     length (cr_grid (get_charts clk f (Some (run steps (initialize_state t))))) \<and>
   length (cr_battery (get_charts clk f (Some (run steps (initialize_state t))))) =
     length (cr_grid (get_charts clk f (Some (run steps (initialize_state t))))) \<and>
   length (cr_solar (get_charts clk f None)) = length (cr_grid (get_charts clk f None)) \<and>
   length (cr_load (get_charts clk f None)) = length (cr_grid (get_charts clk f None)) \<and>
   length (cr_battery (get_charts clk f None)) = length (cr_grid (get_charts clk f None))"
proof -
  have r: "charts_aligned (run steps (initialize_state t))"
    by (rule aligned_run [OF aligned_init])
  from r have a: "charts_aligned (advance_simulation ct now d (run steps (initialize_state t)))"
    by (rule aligned_advance)
  from r have "charts_aligned (get_state clk (Some (run steps (initialize_state t))))"
    by (rule aligned_get_state_Some)
  note s = get_charts_aligned [OF this, of f]
  note n = get_charts_aligned [OF aligned_get_state_None, of clk f]
  from aligned_init r a s n show ?thesis by blast
qed

subsection \<open>The gate of \<open>get_state\<close>\<close>

text \<open>
  C2 (as amended). \<open>get_state\<close> advances the model exactly once, with the elapsed
  time as delta, when the elapsed time since the last update is strictly greater than
  100 ms; otherwise it returns the state unchanged. An uninitialised class is initialised
  first, and the elapsed time is then measured from that initialisation.
\<close>

theorem get_state_gate:
  "get_state clk (Some st) =
     (if time_ms clk - last_update st > 100
      then advance_simulation (adv_ms clk) (adv_now clk) (time_ms clk - last_update st) st
      else st) \<and>
   get_state clk None =
     (if time_ms clk - init_ms clk > 100
      then advance_simulation (adv_ms clk) (adv_now clk) (time_ms clk - init_ms clk)
             (initialize_state (init_ms clk))
      else initialize_state (init_ms clk))"
  by (simp add: get_state_def Let_def initialize_state_def)

text \<open>
  C2 as stated fails: at an elapsed time of exactly 100 ms the state comes back
  unchanged, and it differs from the advanced one.
\<close>

theorem get_state_at_100_not_advanced:
  "time_ms \<lparr>time_ms = 100, init_ms = 100, adv_ms = 100,
            adv_now = \<lparr>dt_hour = 6, dt_minute = 0, dt_isoformat = ''2025-01-01T06:00:00''\<rparr>\<rparr>
     - last_update (initialize_state 0) = 100 \<and>
   get_state \<lparr>time_ms = 100, init_ms = 100, adv_ms = 100,
              adv_now = \<lparr>dt_hour = 6, dt_minute = 0, dt_isoformat = ''2025-01-01T06:00:00''\<rparr>\<rparr>
      (Some (initialize_state 0)) = initialize_state 0 \<and>
   get_state \<lparr>time_ms = 100, init_ms = 100, adv_ms = 100,
              adv_now = \<lparr>dt_hour = 6, dt_minute = 0, dt_isoformat = ''2025-01-01T06:00:00''\<rparr>\<rparr>
      (Some (initialize_state 0)) \<noteq>
     advance_simulation 100 \<lparr>dt_hour = 6, dt_minute = 0, dt_isoformat = ''2025-01-01T06:00:00''\<rparr>
       100 (initialize_state 0)"
proof -
  let ?now = "\<lparr>dt_hour = 6, dt_minute = 0, dt_isoformat = ''2025-01-01T06:00:00''\<rparr>"
  let ?clk = "\<lparr>time_ms = 100, init_ms = 100, adv_ms = 100, adv_now = ?now\<rparr>"
  have d: "time_ms ?clk - last_update (initialize_state 0) = 100"
    by (simp add: initialize_state_def)
  have g: "get_state ?clk (Some (initialize_state 0)) = initialize_state 0"
    by (simp add: get_state_def Let_def initialize_state_def)
  have "lastUpdated (advance_simulation 100 ?now 100 (initialize_state 0)) = 100"
    by (simp add: advance_simulation_def Let_def)
  moreover have "lastUpdated (initialize_state 0) = 0"
    by (simp add: initialize_state_def)
  ultimately have "initialize_state 0 \<noteq> advance_simulation 100 ?now 100 (initialize_state 0)"
    by auto
  with d g show ?thesis by simp
qed

subsection \<open>Power balance and battery control\<close>

text \<open>
  C3. In every advance the grid power before rounding is the load power minus the solar
  power minus the battery power; the stored values are these four, each rounded to two
  decimals.
\<close>

theorem power_balance:
  "grid_power ct now d st =
     load_power ct now - solar_power ct now - battery_power ct now d st \<and>
   power (advance_simulation ct now d st) Grid =
     py_round_nd (load_power ct now - solar_power ct now - battery_power ct now d st) 2 \<and>
   power (advance_simulation ct now d st) Load = py_round_nd (load_power ct now) 2 \<and>
   power (advance_simulation ct now d st) Solar = py_round_nd (solar_power ct now) 2 \<and>
   power (advance_simulation ct now d st) Battery = py_round_nd (battery_power ct now d st) 2"
  by (simp add: grid_power_def advance_simulation_def Let_def new_power_def)

text \<open>
  The net power that an advance derives from the clock never exceeds -22 kW: the load
  model stays above the solar model at every hour. The controller is therefore
  described below for every net power and state of charge, not only for those an
  advance can feed it.
\<close>

lemma net_power_le: "net_power ct now \<le> - 22"
proof -
  define s where "s = sin ((hour_of now - 6) / 12 * pi)"
  define a where "a = sin (ct / 8000)"
  define b where "b = sin (ct / 10000)"
  have s: "- 1 \<le> s" "s \<le> 1" by (simp_all add: s_def)
  have a: "- 1 \<le> a" by (simp add: a_def)
  have b: "b \<le> 1" by (simp add: b_def)
  have tf: "0 \<le> 7 / 10 + 3 / 10 * s" using s by linarith
  have lp: "load_power ct now = 80 * ((7 / 10 + 3 / 10 * s) * (19 / 20 + a / 20))"
    by (simp add: load_power_def time_factor_def s_def a_def)
  have "9 / 10 \<le> 19 / 20 + a / 20" using a by linarith
  with tf have "(7 / 10 + 3 / 10 * s) * (9 / 10) \<le> (7 / 10 + 3 / 10 * s) * (19 / 20 + a / 20)"
    by (rule mult_left_mono [rotated])
  then have load: "72 * (7 / 10 + 3 / 10 * s) \<le> load_power ct now"
    unfolding lp by linarith
  have sf: "solar_factor (hour_of now) = s \<or> solar_factor (hour_of now) = 0"
    by (simp add: solar_factor_def s_def)
  have sf0: "0 \<le> solar_factor (hour_of now)" by (rule solar_factor_nonneg)
  have sp: "solar_power ct now = 50 * (solar_factor (hour_of now) * (9 / 10 + b / 10))"
    by (simp add: solar_power_def b_def)
  have "9 / 10 + b / 10 \<le> 1" using b by linarith
  with sf0 have "solar_factor (hour_of now) * (9 / 10 + b / 10) \<le> solar_factor (hour_of now) * 1"
    by (rule mult_left_mono [rotated])
  then have solar: "solar_power ct now \<le> 50 * solar_factor (hour_of now)"
    unfolding sp by linarith
  have e: "72 * (7 / 10 + 3 / 10 * s) = 252 / 5 + 108 / 5 * s" by (simp add: algebra_simps)
  from sf show ?thesis
  proof
    assume "solar_factor (hour_of now) = s"
    with solar load s e show ?thesis unfolding net_power_def by linarith
  next
    assume "solar_factor (hour_of now) = 0"
    with solar load s e show ?thesis unfolding net_power_def by linarith
  qed
qed

text \<open>
  C6. For every \<open>net\<close>, prior \<open>soc\<close> and \<open>delta_ms\<close>, the controller of an
  advance charges when \<open>net > 5\<close> and \<open>soc < 95\<close>, with battery power
  \<open>min (net * 0.8) 25\<close>; else it discharges when \<open>net < -5\<close> and \<open>soc > 15\<close>,
  with battery power \<open>max (net * 0.8) (-25)\<close>; in both cases \<open>soc\<close> grows by
  \<open>(battery_power * delta_ms / 1000 / 3600) / 100 * 2\<close>; otherwise the battery power
  is 0 and \<open>soc\<close> is unchanged. An advance runs it on
  \<open>net = solar_power - load_power\<close> and the prior \<open>batterySOC\<close>, and stores the
  resulting \<open>soc\<close> clamped and rounded.
\<close>

theorem battery_control_cases:
  "battery_control net soc d =
     (if net > 5 \<and> soc < 95 then
        (min (net * 0.8) 25, soc + (min (net * 0.8) 25 * d / 1000 / 3600) / 100 * 2)
      else if net < - 5 \<and> soc > 15 then
        (max (net * 0.8) (- 25), soc + (max (net * 0.8) (- 25) * d / 1000 / 3600) / 100 * 2)
      else (0, soc)) \<and>
   battery_power ct now d st =
     fst (battery_control (solar_power ct now - load_power ct now) (batterySOC (kpis st)) d) \<and>
   soc_updated ct now d st =
     snd (battery_control (solar_power ct now - load_power ct now) (batterySOC (kpis st)) d) \<and>
   batterySOC (kpis (advance_simulation ct now d st)) =
     py_round_nd (max 10 (min 100 (soc_updated ct now d st))) 2"
  by (simp add: battery_power_def soc_updated_def battery_control_def net_power_def Let_def
      advance_batterySOC soc_clamped_def)

theorem battery_control_cases_witness:
  "battery_control 10 50 3600000 = (8, 50.16) \<and>
   battery_control 40 50 3600000 = (25, 50.5) \<and>
   battery_control (- 10) 50 3600000 = (- 8, 49.84) \<and>
   battery_control (- 40) 50 3600000 = (- 25, 49.5) \<and>
   battery_control 10 95 3600000 = (0, 95) \<and>
   battery_control (- 10) 15 3600000 = (0, 15) \<and>
   battery_control 5 50 3600000 = (0, 50) \<and>
   battery_control (- 5) 50 3600000 = (0, 50)"
  using battery_control_cases [of 10 50 3600000] battery_control_cases [of 40 50 3600000]
    battery_control_cases [of "- 10" 50 3600000] battery_control_cases [of "- 40" 50 3600000]
    battery_control_cases [of 10 95 3600000] battery_control_cases [of "- 10" 15 3600000]
    battery_control_cases [of 5 50 3600000] battery_control_cases [of "- 5" 50 3600000]
  by simp

subsection \<open>Alerts\<close>

lemma in_category_simps:
  "in_category c (battery_critical now soc) = (c = ''battery'')"
  "in_category c (battery_warning now soc) = (c = ''battery'')"
  "in_category c (grid_high now g) = (c = ''grid'')"
  by (auto simp: in_category_def battery_critical_def battery_warning_def grid_high_def)

lemma is_alert_simps:
  "is_alert c sev (battery_critical now soc) = (c = ''battery'' \<and> sev = ''critical'')"
  "is_alert c sev (battery_warning now soc) = (c = ''battery'' \<and> sev = ''warning'')"
  "is_alert c sev (grid_high now g) = (c = ''grid'' \<and> sev = ''warning'')"
  by (auto simp: is_alert_def in_category_def battery_critical_def battery_warning_def
      grid_high_def)

text \<open>
  C7. \<open>get_alerts\<close> returns a critical battery alert exactly when the state's
  \<open>batterySOC\<close> is below 20, a warning battery alert exactly when it is at least 20 and
  below 30, no battery alert exactly when it is at least 30, and a grid warning alert
  exactly when the absolute grid power exceeds 50; so at most one battery alert and at
  most one grid alert per call. The state is the one \<open>get_state\<close> returns to the call.
\<close>

theorem alerts_thresholds:
  "((\<exists>a \<in> set (get_alerts clk now cls). is_alert ''battery'' ''critical'' a)
      = (batterySOC (kpis (get_state clk cls)) < 20)) \<and>
   ((\<exists>a \<in> set (get_alerts clk now cls). is_alert ''battery'' ''warning'' a)
      = (20 \<le> batterySOC (kpis (get_state clk cls)) \<and> batterySOC (kpis (get_state clk cls)) < 30)) \<and>
   ((filter (in_category ''battery'') (get_alerts clk now cls) = [])
      = (30 \<le> batterySOC (kpis (get_state clk cls)))) \<and>
   ((\<exists>a \<in> set (get_alerts clk now cls). is_alert ''grid'' ''warning'' a)
      = (\<bar>power (get_state clk cls) Grid\<bar> > 50)) \<and>
   ((filter (in_category ''grid'') (get_alerts clk now cls) = [])
      = (\<not> \<bar>power (get_state clk cls) Grid\<bar> > 50)) \<and>
   length (filter (in_category ''battery'') (get_alerts clk now cls)) \<le> 1 \<and>
   length (filter (in_category ''grid'') (get_alerts clk now cls)) \<le> 1"
  by (simp add: get_alerts_def Let_def in_category_simps is_alert_simps)

theorem alerts_thresholds_witness:
  "get_alerts \<lparr>time_ms = 50, init_ms = 0, adv_ms = 50,
               adv_now = \<lparr>dt_hour = 6, dt_minute = 0, dt_isoformat = ''2025-01-01T06:00:00''\<rparr>\<rparr>
     \<lparr>dt_hour = 6, dt_minute = 0, dt_isoformat = ''2025-01-01T06:00:01''\<rparr>
     (Some ((initialize_state 0)\<lparr>power := (\<lambda>k. 60),
        kpis := (kpis (initialize_state 0))\<lparr>batterySOC := 15.5\<rparr>\<rparr>))
   = [battery_critical \<lparr>dt_hour = 6, dt_minute = 0, dt_isoformat = ''2025-01-01T06:00:01''\<rparr> 15.5,
      grid_high \<lparr>dt_hour = 6, dt_minute = 0, dt_isoformat = ''2025-01-01T06:00:01''\<rparr> 60] \<and>
   (\<exists>a \<in> set (get_alerts \<lparr>time_ms = 50, init_ms = 0, adv_ms = 50,
               adv_now = \<lparr>dt_hour = 6, dt_minute = 0, dt_isoformat = ''2025-01-01T06:00:00''\<rparr>\<rparr>
     \<lparr>dt_hour = 6, dt_minute = 0, dt_isoformat = ''2025-01-01T06:00:01''\<rparr>
     (Some ((initialize_state 0)\<lparr>power := (\<lambda>k. 60),
        kpis := (kpis (initialize_state 0))\<lparr>batterySOC := 15.5\<rparr>\<rparr>))).
      is_alert ''battery'' ''critical'' a) \<and>
   (\<exists>a \<in> set (get_alerts \<lparr>time_ms = 50, init_ms = 0, adv_ms = 50,
               adv_now = \<lparr>dt_hour = 6, dt_minute = 0, dt_isoformat = ''2025-01-01T06:00:00''\<rparr>\<rparr>
     \<lparr>dt_hour = 6, dt_minute = 0, dt_isoformat = ''2025-01-01T06:00:01''\<rparr>
     (Some ((initialize_state 0)\<lparr>power := (\<lambda>k. 60),
        kpis := (kpis (initialize_state 0))\<lparr>batterySOC := 15.5\<rparr>\<rparr>))).
      is_alert ''grid'' ''warning'' a)"
proof -
  let ?clk = "\<lparr>time_ms = 50, init_ms = 0, adv_ms = 50,
               adv_now = \<lparr>dt_hour = 6, dt_minute = 0, dt_isoformat = ''2025-01-01T06:00:00''\<rparr>\<rparr>"
  let ?cls = "Some ((initialize_state 0)\<lparr>power := (\<lambda>k. 60),
        kpis := (kpis (initialize_state 0))\<lparr>batterySOC := 15.5\<rparr>\<rparr>)"
  let ?now = "\<lparr>dt_hour = 6, dt_minute = 0, dt_isoformat = ''2025-01-01T06:00:01''\<rparr>"
  have g: "get_state ?clk ?cls = the ?cls"
    by (simp add: get_state_def Let_def initialize_state_def)
  have soc: "batterySOC (kpis (get_state ?clk ?cls)) < 20"
    unfolding g by (simp add: initialize_state_def)
  have grid: "\<bar>power (get_state ?clk ?cls) Grid\<bar> > 50"
    unfolding g by simp
  have a: "get_alerts ?clk ?now ?cls = [battery_critical ?now 15.5, grid_high ?now 60]"
    unfolding get_alerts_def Let_def g by (simp add: initialize_state_def)
  from alerts_thresholds [of ?clk ?now ?cls] soc grid a show ?thesis by simp
qed

subsection \<open>Sites\<close>

lemma get_sites_entries:
  "get_sites clk now cls =
     map (\<lambda>idx. site_entry (get_state clk cls) now idx (sites ! idx)) [0, 1, 2, 3, 4, 5]"
  by (simp add: get_sites_def Let_def sites_def eval_nat_numeral)

lemma site_soc_bounds: "10 \<le> site_soc st idx \<and> site_soc st idx \<le> 100"
  by (simp add: site_soc_def)

lemma py_round_nd1_bounds:
  assumes "10 \<le> x" "x \<le> 100"
  shows "10 \<le> py_round_nd x 1 \<and> py_round_nd x 1 \<le> 100"
proof -
  have "of_int 100 \<le> x * 10 ^ 1" using assms by simp
  then have a: "100 \<le> py_round (x * 10 ^ 1)" by (rule py_round_ge)
  have "x * 10 ^ 1 \<le> of_int 1000" using assms by simp
  then have b: "py_round (x * 10 ^ 1) \<le> 1000" by (rule py_round_le)
  from a have "(100::real) \<le> of_int (py_round (x * 10 ^ 1))" by linarith
  moreover from b have "of_int (py_round (x * 10 ^ 1)) \<le> (1000::real)" by linarith
  ultimately show ?thesis by (simp add: py_round_nd_def field_simps)
qed



text \<open>
  C10. In the entries of \<open>get_sites\<close>, the derived state of charge of site
  \<open>idx\<close> is the global \<open>batterySOC\<close> plus \<open>(idx - 3) * 2\<close>, clamped: it lies in
  [10, 100], and so does the returned value, rounded to one decimal. The status is
  \<open>online\<close> exactly when the derived value exceeds 20 and \<open>warning\<close> otherwise.
\<close>

theorem sites_soc_status:
  "map (\<lambda>e. map_of e ''status'') (get_sites clk now cls) =
     map (\<lambda>idx. Some (JStr (if site_soc (get_state clk cls) idx > 20 then ''online''
                               else ''warning'')))
       [0, 1, 2, 3, 4, 5] \<and>
   map (\<lambda>e. map_of e ''soc'') (get_sites clk now cls) =
     map (\<lambda>idx. Some (JNum (py_round_nd (site_soc (get_state clk cls) idx) 1)))
       [0, 1, 2, 3, 4, 5] \<and>
   site_soc (get_state clk cls) idx =
     max 10 (min 100 (batterySOC (kpis (get_state clk cls)) + (real idx - 3) * 2)) \<and>
   10 \<le> site_soc (get_state clk cls) idx \<and> site_soc (get_state clk cls) idx \<le> 100 \<and>
   10 \<le> py_round_nd (site_soc (get_state clk cls) idx) 1 \<and>
   py_round_nd (site_soc (get_state clk cls) idx) 1 \<le> 100"
proof -
  note b = site_soc_bounds [of "get_state clk cls" idx]
  from b have r: "10 \<le> py_round_nd (site_soc (get_state clk cls) idx) 1 \<and>
      py_round_nd (site_soc (get_state clk cls) idx) 1 \<le> 100"
    by (intro py_round_nd1_bounds) simp_all
  have m: "map (\<lambda>e. map_of e ''status'') (get_sites clk now cls) =
     map (\<lambda>idx. Some (JStr (if site_soc (get_state clk cls) idx > 20 then ''online''
                               else ''warning'')))
       [0, 1, 2, 3, 4, 5]"
    unfolding get_sites_entries by (simp add: site_entry_def Let_def)
  have s: "map (\<lambda>e. map_of e ''soc'') (get_sites clk now cls) =
     map (\<lambda>idx. Some (JNum (py_round_nd (site_soc (get_state clk cls) idx) 1)))
       [0, 1, 2, 3, 4, 5]"
    unfolding get_sites_entries by (simp add: site_entry_def Let_def)
  have d: "site_soc (get_state clk cls) idx =
     max 10 (min 100 (batterySOC (kpis (get_state clk cls)) + (real idx - 3) * 2))"
    by (simp add: site_soc_def)
  from m s d b r show ?thesis by blast
qed

end
